theory Spec2Isabelle
  imports Complex_Main "HOL-Library.AList"
begin

section \<open>Respiratory sound classification service (app.py)\<close>

text \<open>
  The service is a linear pipeline (load, trim, extract features, summarise) in front of a
  pickled classifier, behind one HTTP route. Python floats are idealised as reals
  throughout; no theorem below depends on rounding. Python dictionaries are association
  lists in insertion order, written with \<open>AList.update\<close> where the source assigns a key.
\<close>

subsection \<open>Exceptions\<close>

text \<open>An exception is its class together with its message; \<open>str(e)\<close> is the message.\<close>

datatype exn =
    FileNotFoundError string
  | ValueError string
  | IndexError string
  | OSError string
  | RuntimeError string

fun str_exn :: "exn \<Rightarrow> string" where
  "str_exn (FileNotFoundError m) = m"
| "str_exn (ValueError m) = m"
| "str_exn (IndexError m) = m"
| "str_exn (OSError m) = m"
| "str_exn (RuntimeError m) = m"

subsection \<open>The label map\<close>

definition LABEL_MAP :: "(int \<times> string) list" where
  "LABEL_MAP =
     [(0, ''Asthma''), (1, ''Bronchiectasis''), (2, ''Bronchiolitis''), (3, ''COPD''),
      (4, ''Pneumonia''), (5, ''LRTI''), (6, ''Healthy''), (7, ''URTI'')]"

text \<open>\<open>dict.get(key, default)\<close>.\<close>

definition dict_get :: "('k \<times> 'v) list \<Rightarrow> 'k \<Rightarrow> 'v \<Rightarrow> 'v" where
  "dict_get d k dflt = (case map_of d k of Some v \<Rightarrow> v | None \<Rightarrow> dflt)"

text \<open>The eight label strings of the claim about the predicted label.\<close>

definition LABEL_SET :: "string set" where
  "LABEL_SET =
     {''Asthma'', ''Bronchiectasis'', ''Bronchiolitis'', ''COPD'',
      ''Pneumonia'', ''LRTI'', ''Healthy'', ''URTI''}"

subsection \<open>Python primitives used by the pipeline\<close>

text \<open>\<open>int(x)\<close> on a float truncates toward zero.\<close>

definition py_int :: "real \<Rightarrow> int" where
  "py_int x = (if 0 \<le> x then \<lfloor>x\<rfloor> else \<lceil>x\<rceil>)"

text \<open>
  \<open>data[:n]\<close> on an array: a negative bound counts from the end, and the slice is
  clipped to the array.
\<close>

definition slice_to :: "'a list \<Rightarrow> int \<Rightarrow> 'a list" where
  "slice_to xs n =
     (if 0 \<le> n then take (nat n) xs else take (length xs - nat (- n)) xs)"

text \<open>\<open>np.pad(data, (0, n))\<close>: constant mode, \<open>n\<close> zeros appended.\<close>

definition np_pad_end :: "real list \<Rightarrow> int \<Rightarrow> real list" where
  "np_pad_end xs n = xs @ replicate (nat n) 0"

text \<open>
  \<open>str(n)\<close> of an integer: decimal digits, a minus sign when negative. The digit
  \<open>d\<close> is the character with code \<open>ord('0') + d\<close>.
\<close>

definition digit_char :: "nat \<Rightarrow> char" where
  "digit_char d = char_of (48 + d)"

fun digits :: "nat \<Rightarrow> string" where
  "digits n = (if n < 10 then [digit_char n] else digits (n div 10) @ [digit_char (n mod 10)])"

definition str_int :: "int \<Rightarrow> string" where
  "str_int i = (if i < 0 then CHR ''-'' # digits (nat (- i)) else digits (nat i))"

text \<open>\<open>os.path.basename\<close> and \<open>os.path.join\<close> of two components (posixpath).\<close>

definition basename :: "string \<Rightarrow> string" where
  "basename p = rev (takeWhile (\<lambda>c. c \<noteq> CHR ''/'') (rev p))"

definition os_path_join :: "string \<Rightarrow> string \<Rightarrow> string" where
  "os_path_join a b =
     (if b \<noteq> [] \<and> hd b = CHR ''/'' then b
      else if a = [] \<or> last a = CHR ''/'' then a @ b
      else a @ ''/'' @ b)"

text \<open>
  Reductions over all elements of an array. \<open>np.mean\<close> and \<open>np.std\<close> of an empty
  array give NaN with a warning, \<open>np.max\<close> and \<open>np.min\<close> raise ValueError.
\<close>

definition np_mean :: "real list \<Rightarrow> real" where
  "np_mean xs = sum_list xs / real (length xs)"

definition np_std :: "real list \<Rightarrow> real" where
  "np_std xs = sqrt (np_mean (map (\<lambda>x. (x - np_mean xs)\<^sup>2) xs))"

fun np_max :: "real list \<Rightarrow> exn + real" where
  "np_max [] =
     Inl (ValueError ''zero-size array to reduction operation maximum which has no identity'')"
| "np_max (x # xs) = Inr (fold max xs x)"

fun np_min :: "real list \<Rightarrow> exn + real" where
  "np_min [] =
     Inl (ValueError ''zero-size array to reduction operation minimum which has no identity'')"
| "np_min (x # xs) = Inr (fold min xs x)"

text \<open>\<open>a[0]\<close> on a sequence.\<close>

fun index0 :: "'a list \<Rightarrow> exn + 'a" where
  "index0 [] = Inl (IndexError ''index 0 is out of bounds for axis 0 with size 0'')"
| "index0 (x # xs) = Inr x"

subsection \<open>Data of the pipeline\<close>

record audio_info =
  data :: "real list"
  sample_rate :: int

record trimmed_info = audio_info +
  duration :: real

text \<open>
  A table row is the dictionary \<open>file_stats\<close>; a cell is a Python string or a number.
  A data frame built from a list of such dictionaries has the keys in order of first
  appearance as columns. A column holding strings has dtype \<open>object\<close>; a column of
  floats (missing entries are NaN) has a numeric dtype.
\<close>

datatype cell = Str string | Num real

record dataframe =
  columns :: "string list"
  records :: "(string \<times> cell) list list"

definition first_seen :: "'a list \<Rightarrow> 'a list" where
  "first_seen ks = fold (\<lambda>k acc. if k \<in> set acc then acc else acc @ [k]) ks []"

definition DataFrame :: "(string \<times> cell) list list \<Rightarrow> dataframe" where
  "DataFrame rows = \<lparr>columns = first_seen (concat (map (map fst) rows)), records = rows\<rparr>"

definition is_object :: "dataframe \<Rightarrow> string \<Rightarrow> bool" where
  "is_object df c =
     list_ex (\<lambda>r. case map_of r c of Some (Str s) \<Rightarrow> True | _ \<Rightarrow> False) (records df)"

definition df_drop :: "string \<Rightarrow> dataframe \<Rightarrow> dataframe" where
  "df_drop c df =
     \<lparr>columns = filter (\<lambda>k. k \<noteq> c) (columns df),
      records = map (AList.delete c) (records df)\<rparr>"

definition select_dtypes_exclude_object :: "dataframe \<Rightarrow> dataframe" where
  "select_dtypes_exclude_object df =
     \<lparr>columns = filter (\<lambda>c. \<not> is_object df c) (columns df),
      records = map (filter (\<lambda>kv. \<not> is_object df (fst kv))) (records df)\<rparr>"

subsection \<open>AudioTrimmer\<close>

definition target_samples :: "real \<Rightarrow> int \<Rightarrow> int" where
  "target_samples target_duration sr = py_int (target_duration * real_of_int sr)"

definition trim_data :: "int \<Rightarrow> real list \<Rightarrow> real list" where
  "trim_data n xs =
     (if int (length xs) < n then np_pad_end xs (n - int (length xs)) else slice_to xs n)"

definition AudioTrimmer_transform ::
  "real \<Rightarrow> (string \<times> audio_info) list \<Rightarrow> (string \<times> trimmed_info) list" where
  "AudioTrimmer_transform target_duration X =
     map (\<lambda>(filename, info).
            (filename,
             \<lparr>data = trim_data (target_samples target_duration (sample_rate info)) (data info),
              sample_rate = sample_rate info,
              duration = target_duration\<rparr>)) X"

subsection \<open>The outside world\<close>

text \<open>
  The classifier is a pickled scikit-learn estimator, not part of the repository: it is
  known by its three members. Class labels are the integer class indices that the label
  map is keyed by.
\<close>

record classifier =
  model_predict :: "dataframe \<Rightarrow> exn + int list"
  model_predict_proba :: "dataframe \<Rightarrow> exn + real list list"
  model_classes :: "int list"

text \<open>
  The handler's effects: the files it has saved (path and content, oldest first) and
  what it has printed. What the libraries read from disk may depend on the files saved
  so far, so every reading call takes that list.
\<close>

record world =
  saved :: "(string \<times> string) list"
  printed :: "string list"

record library =
  gettempdir :: string
  path_exists :: "(string \<times> string) list \<Rightarrow> string \<Rightarrow> bool"
  save_error :: "(string \<times> string) list \<Rightarrow> string \<Rightarrow> exn option"
  joblib_load :: "(string \<times> string) list \<Rightarrow> string \<Rightarrow> exn + classifier"
  librosa_load :: "(string \<times> string) list \<Rightarrow> string \<Rightarrow> exn + real list \<times> int"
  chroma_stft :: "real list \<Rightarrow> int \<Rightarrow> exn + real list list"
  mfcc :: "real list \<Rightarrow> int \<Rightarrow> nat \<Rightarrow> exn + real list list"
  melspectrogram :: "real list \<Rightarrow> int \<Rightarrow> exn + real list list"
  spectral_contrast :: "real list \<Rightarrow> int \<Rightarrow> exn + real list list"
  spectral_centroid :: "real list \<Rightarrow> int \<Rightarrow> exn + real list list"
  spectral_bandwidth :: "real list \<Rightarrow> int \<Rightarrow> exn + real list list"
  spectral_rolloff :: "real list \<Rightarrow> int \<Rightarrow> exn + real list list"
  zero_crossing_rate :: "real list \<Rightarrow> exn + real list list"
  format_exc :: "exn \<Rightarrow> string"

subsection \<open>AudioLoader\<close>

fun AudioLoader_loop ::
  "library \<Rightarrow> (string \<times> string) list \<Rightarrow> (string \<times> audio_info) list \<Rightarrow> string list
     \<Rightarrow> exn + (string \<times> audio_info) list" where
  "AudioLoader_loop lib fs result [] = Inr result"
| "AudioLoader_loop lib fs result (file_path # rest) =
     (case librosa_load lib fs file_path of
        Inl e \<Rightarrow> Inl e
      | Inr (y, sr) \<Rightarrow>
          AudioLoader_loop lib fs
            (AList.update (basename file_path) \<lparr>data = y, sample_rate = sr\<rparr> result) rest)"

definition AudioLoader_transform ::
  "library \<Rightarrow> (string \<times> string) list \<Rightarrow> string list \<Rightarrow> exn + (string \<times> audio_info) list" where
  "AudioLoader_transform lib fs X = AudioLoader_loop lib fs [] X"

subsection \<open>FeatureExtractor\<close>

text \<open>
  A dictionary display evaluates its values in order; the first raise ends it. The keys
  written in the source are pairwise different.
\<close>

fun dict_display :: "(string \<times> (exn + 'v)) list \<Rightarrow> exn + (string \<times> 'v) list" where
  "dict_display [] = Inr []"
| "dict_display ((k, Inl e) # rest) = Inl e"
| "dict_display ((k, Inr v) # rest) =
     (case dict_display rest of Inl e \<Rightarrow> Inl e | Inr d \<Rightarrow> Inr ((k, v) # d))"

definition extract_features ::
  "library \<Rightarrow> real list \<Rightarrow> int \<Rightarrow> exn + (string \<times> real list list) list" where
  "extract_features lib y_audio sr =
     dict_display
       [(''chroma_stft'', chroma_stft lib y_audio sr),
        (''mfcc'', mfcc lib y_audio sr 13),
        (''mel_spectrogram'', melspectrogram lib y_audio sr),
        (''spectral_contrast'', spectral_contrast lib y_audio sr),
        (''spectral_centroid'', spectral_centroid lib y_audio sr),
        (''spectral_bandwidth'', spectral_bandwidth lib y_audio sr),
        (''spectral_rolloff'', spectral_rolloff lib y_audio sr),
        (''zero_crossing_rate'', zero_crossing_rate lib y_audio)]"

fun FeatureExtractor_transform ::
  "library \<Rightarrow> (string \<times> trimmed_info) list
     \<Rightarrow> exn + (string \<times> (string \<times> real list list) list) list" where
  "FeatureExtractor_transform lib [] = Inr []"
| "FeatureExtractor_transform lib ((filename, info) # rest) =
     (case extract_features lib (data info) (sample_rate info) of
        Inl e \<Rightarrow> Inl e
      | Inr fs \<Rightarrow>
          (case FeatureExtractor_transform lib rest of
             Inl e \<Rightarrow> Inl e
           | Inr features \<Rightarrow> Inr ((filename, fs) # features)))"

subsection \<open>FeatureStatisticsCalculator\<close>

fun file_stats_loop ::
  "(string \<times> cell) list \<Rightarrow> (string \<times> real list list) list \<Rightarrow> exn + (string \<times> cell) list" where
  "file_stats_loop file_stats [] = Inr file_stats"
| "file_stats_loop file_stats ((feature_name, arr) # rest) =
     (let xs = concat arr;
          s1 = AList.update (feature_name @ ''_mean'') (Num (np_mean xs)) file_stats;
          s2 = AList.update (feature_name @ ''_std'') (Num (np_std xs)) s1
      in case np_max xs of
           Inl e \<Rightarrow> Inl e
         | Inr mx \<Rightarrow>
             (case np_min xs of
                Inl e \<Rightarrow> Inl e
              | Inr mn \<Rightarrow>
                  file_stats_loop
                    (AList.update (feature_name @ ''_min'') (Num mn)
                       (AList.update (feature_name @ ''_max'') (Num mx) s2))
                    rest))"

fun feature_stats_loop ::
  "(string \<times> (string \<times> real list list) list) list \<Rightarrow> exn + (string \<times> cell) list list" where
  "feature_stats_loop [] = Inr []"
| "feature_stats_loop ((filename, features) # rest) =
     (case file_stats_loop [(''filename'', Str filename)] features of
        Inl e \<Rightarrow> Inl e
      | Inr file_stats \<Rightarrow>
          (case feature_stats_loop rest of
             Inl e \<Rightarrow> Inl e
           | Inr feature_stats \<Rightarrow> Inr (file_stats # feature_stats)))"

definition drop_excluded :: "string list \<Rightarrow> dataframe \<Rightarrow> dataframe" where
  "drop_excluded excluded df =
     fold (\<lambda>feature d. if feature \<in> set (columns d) then df_drop feature d else d) excluded df"

definition FeatureStatisticsCalculator_transform ::
  "string list \<Rightarrow> (string \<times> (string \<times> real list list) list) list \<Rightarrow> exn + dataframe" where
  "FeatureStatisticsCalculator_transform excluded_features X =
     (case feature_stats_loop X of
        Inl e \<Rightarrow> Inl e
      | Inr feature_stats \<Rightarrow>
          Inr (select_dtypes_exclude_object
                 (drop_excluded excluded_features (DataFrame feature_stats))))"

subsection \<open>The pipeline\<close>

definition excluded_features :: "string list" where
  "excluded_features = [''mel_spectrogram_min'', ''chroma_stft_max'']"

text \<open>
  \<open>create_pipeline().transform(X)\<close>: the four steps in order, the trimmer with its
  default duration.
\<close>

definition pipeline_transform ::
  "library \<Rightarrow> (string \<times> string) list \<Rightarrow> string list \<Rightarrow> exn + dataframe" where
  "pipeline_transform lib fs X =
     (case AudioLoader_transform lib fs X of
        Inl e \<Rightarrow> Inl e
      | Inr loaded \<Rightarrow>
          (case FeatureExtractor_transform lib (AudioTrimmer_transform 7.856 loaded) of
             Inl e \<Rightarrow> Inl e
           | Inr features \<Rightarrow> FeatureStatisticsCalculator_transform excluded_features features))"

subsection \<open>predict_condition\<close>

record prediction_result =
  prediction :: string
  probability :: real
  all_probabilities :: "(string \<times> real) list"

definition label_of :: "int \<Rightarrow> string" where
  "label_of c = dict_get LABEL_MAP c (str_int c)"

text \<open>A dictionary comprehension assigns its pairs in order.\<close>

definition dict_of_pairs :: "('k \<times> 'v) list \<Rightarrow> ('k \<times> 'v) list" where
  "dict_of_pairs kvs = fold (\<lambda>kv d. AList.update (fst kv) (snd kv) d) kvs []"

definition predict_condition ::
  "library \<Rightarrow> (string \<times> string) list \<Rightarrow> string \<Rightarrow> string \<Rightarrow> exn + prediction_result" where
  "predict_condition lib fs wav_file_path model_path =
     (if \<not> path_exists lib fs model_path
      then Inl (FileNotFoundError (''Model file not found: '' @ model_path))
      else case joblib_load lib fs model_path of
        Inl e \<Rightarrow> Inl e
      | Inr model \<Rightarrow>
      (case pipeline_transform lib fs [wav_file_path] of
        Inl e \<Rightarrow> Inl e
      | Inr features_df \<Rightarrow>
      (case model_predict model features_df of
        Inl e \<Rightarrow> Inl e
      | Inr predictions \<Rightarrow>
      (case index0 predictions of
        Inl e \<Rightarrow> Inl e
      | Inr pred \<Rightarrow>
      (case model_predict_proba model features_df of
        Inl e \<Rightarrow> Inl e
      | Inr probas \<Rightarrow>
      (case index0 probas of
        Inl e \<Rightarrow> Inl e
      | Inr probabilities \<Rightarrow>
      (case np_max probabilities of
        Inl e \<Rightarrow> Inl e
      | Inr max_prob \<Rightarrow>
          Inr \<lparr>prediction = label_of pred,
               probability = max_prob,
               all_probabilities =
                 dict_of_pairs (zip (map label_of (model_classes model)) probabilities)\<rparr>)))))))"

subsection \<open>The HTTP handler\<close>

record file_storage =
  filename :: string
  stream :: string

record request =
  files :: "(string \<times> file_storage) list"

datatype json = JString string | JNumber real | JObject "(string \<times> json) list"

text \<open>
  The handler either returns a body with a status, or lets an exception escape to the
  framework (only \<open>file.save\<close> is outside the \<open>try\<close>).
\<close>

datatype outcome = Response json nat | Unhandled exn

definition jsonify_result :: "prediction_result \<Rightarrow> json" where
  "jsonify_result r =
     JObject [(''prediction'', JString (prediction r)),
              (''probability'', JNumber (probability r)),
              (''all_probabilities'', JObject (map (\<lambda>(k, p). (k, JNumber p)) (all_probabilities r)))]"

definition file_save :: "library \<Rightarrow> world \<Rightarrow> file_storage \<Rightarrow> string \<Rightarrow> exn + world" where
  "file_save lib w file dst =
     (case save_error lib (saved w) dst of
        Some e \<Rightarrow> Inl e
      | None \<Rightarrow> Inr (w\<lparr>saved := saved w @ [(dst, stream file)]\<rparr>))"

definition predict :: "library \<Rightarrow> world \<Rightarrow> request \<Rightarrow> outcome \<times> world" where
  "predict lib w req =
     (case map_of (files req) ''file'' of
        None \<Rightarrow> (Response (JObject [(''error'', JString ''No file uploaded'')]) 400, w)
      | Some file \<Rightarrow>
          (let temp_dir = gettempdir lib;
               file_path = os_path_join temp_dir (filename file)
           in case file_save lib w file file_path of
                Inl e \<Rightarrow> (Unhandled e, w)
              | Inr w' \<Rightarrow>
                  (case predict_condition lib (saved w') file_path ''respiratory_classifier.pkl'' of
                     Inr result \<Rightarrow> (Response (jsonify_result result) 200, w')
                   | Inl e \<Rightarrow>
                       (Response (JObject [(''error'', JString (str_exn e))]) 500,
                        w'\<lparr>printed := printed w' @
                              [''Error during prediction:'' @ [CHR 0x0A] @ '' '' @ format_exc lib e]\<rparr>))))"

text \<open>The field of a JSON object, if the body is one.\<close>

fun json_field :: "json \<Rightarrow> string \<Rightarrow> json option" where
  "json_field (JObject kvs) k = map_of kvs k"
| "json_field j k = None"

subsection \<open>A concrete outside world for the examples\<close>

text \<open>
  A classifier that always predicts class \<open>pred\<close> over the classes \<open>cs\<close> with the
  distribution \<open>ps\<close>, and libraries that decode every file to three samples at 2 Hz and
  give every feature the array \<open>[[1, 3]]\<close>. The model artifact is on disk when
  \<open>present\<close> holds.
\<close>

definition demo_classifier :: "int \<Rightarrow> int list \<Rightarrow> real list \<Rightarrow> classifier" where
  "demo_classifier pred cs ps =
     \<lparr>model_predict = (\<lambda>df. Inr [pred]),
      model_predict_proba = (\<lambda>df. Inr [ps]),
      model_classes = cs\<rparr>"

definition demo_library :: "bool \<Rightarrow> classifier \<Rightarrow> library" where
  "demo_library present clf =
     \<lparr>gettempdir = ''/tmp'',
      path_exists = (\<lambda>fs p. present),
      save_error = (\<lambda>fs p. None),
      joblib_load = (\<lambda>fs p. Inr clf),
      librosa_load = (\<lambda>fs p. Inr ([1, 2, 3], 2)),
      chroma_stft = (\<lambda>y sr. Inr [[1, 3]]),
      mfcc = (\<lambda>y sr n. Inr [[1, 3]]),
      melspectrogram = (\<lambda>y sr. Inr [[1, 3]]),
      spectral_contrast = (\<lambda>y sr. Inr [[1, 3]]),
      spectral_centroid = (\<lambda>y sr. Inr [[1, 3]]),
      spectral_bandwidth = (\<lambda>y sr. Inr [[1, 3]]),
      spectral_rolloff = (\<lambda>y sr. Inr [[1, 3]]),
      zero_crossing_rate = (\<lambda>y. Inr [[1, 3]]),
      format_exc = (\<lambda>e. ''Traceback (most recent call last): '' @ str_exn e)\<rparr>"

definition demo_request :: "string \<Rightarrow> string \<Rightarrow> request" where
  "demo_request name content = \<lparr>files = [(''file'', \<lparr>filename = name, stream = content\<rparr>)]\<rparr>"

definition empty_world :: world where
  "empty_world = \<lparr>saved = [], printed = []\<rparr>"

section \<open>Properties\<close>

subsection \<open>Decimal strings and labels\<close>

declare digits.simps [simp del]

lemma digits_small: "n < 10 \<Longrightarrow> digits n = [digit_char n]"
  by (subst digits.simps) simp

lemma digits_large: "\<not> n < 10 \<Longrightarrow> digits n = digits (n div 10) @ [digit_char (n mod 10)]"
  by (subst digits.simps) simp

lemma digits_nonempty: "digits n \<noteq> []"
proof (cases "n < 10")
  case True
  show ?thesis unfolding digits_small [OF True] by simp
next
  case False
  show ?thesis unfolding digits_large [OF False] by simp
qed

lemma digits_large_length:
  assumes "\<not> n < 10"
  shows "2 \<le> length (digits n)"
proof -
  have "length (digits n) = Suc (length (digits (n div 10)))"
    unfolding digits_large [OF assms] by simp
  moreover have "length (digits (n div 10)) \<noteq> 0"
    using digits_nonempty [of "n div 10"] by simp
  ultimately show ?thesis by arith
qed

lemma of_char_digit_char: "d < 10 \<Longrightarrow> of_char (digit_char d) = 48 + d"
  by (simp add: digit_char_def)

lemma digit_char_inj: "a < 10 \<Longrightarrow> b < 10 \<Longrightarrow> digit_char a = digit_char b \<Longrightarrow> a = b"
proof -
  assume a: "a < 10" and b: "b < 10" and eq: "digit_char a = digit_char b"
  from eq have "(of_char (digit_char a) :: nat) = of_char (digit_char b)" by simp
  with a b show ?thesis by (simp add: of_char_digit_char)
qed

lemma digits_inj: "digits n = digits m \<Longrightarrow> n = m"
proof (induction n arbitrary: m rule: digits.induct)
  case (1 n)
  show ?case
  proof (cases "n < 10")
    case True
    note n = this
    show ?thesis
    proof (cases "m < 10")
      case True
      from 1(2) have "digit_char n = digit_char m"
        unfolding digits_small [OF n] digits_small [OF True] by simp
      with n True show ?thesis by (rule digit_char_inj)
    next
      case False
      have "length (digits m) = length (digits n)" using 1(2) by simp
      moreover have "length (digits n) = 1" unfolding digits_small [OF n] by simp
      ultimately show ?thesis using digits_large_length [OF False] by simp
    qed
  next
    case False
    note n = this
    show ?thesis
    proof (cases "m < 10")
      case True
      have "length (digits n) = length (digits m)" using 1(2) by simp
      moreover have "length (digits m) = 1" unfolding digits_small [OF True] by simp
      ultimately show ?thesis using digits_large_length [OF n] by simp
    next
      case False
      from 1(2) have "digits (n div 10) @ [digit_char (n mod 10)]
          = digits (m div 10) @ [digit_char (m mod 10)]"
        unfolding digits_large [OF n] digits_large [OF False] .
      then have e: "digits (n div 10) = digits (m div 10)"
        and d: "digit_char (n mod 10) = digit_char (m mod 10)" by simp_all
      from e have "n div 10 = m div 10" by (rule 1(1) [OF n])
      moreover have "n mod 10 = m mod 10" by (rule digit_char_inj [OF _ _ d]) simp_all
      ultimately show ?thesis by (metis div_mult_mod_eq)
    qed
  qed
qed


lemma hd_digits: "48 \<le> (of_char (hd (digits n)) :: nat) \<and> (of_char (hd (digits n)) :: nat) \<le> 57"
proof (induction n rule: digits.induct)
  case (1 n)
  show ?case
  proof (cases "n < 10")
    case True
    then show ?thesis
      unfolding digits_small [OF True] by (simp add: of_char_digit_char)
  next
    case False
    have "hd (digits n) = hd (digits (n div 10))"
      unfolding digits_large [OF False] using digits_nonempty [of "n div 10"] by simp
    with 1 [OF False] show ?thesis by simp
  qed
qed

lemma hd_digits_not_minus: "hd (digits n) \<noteq> CHR ''-''"
proof
  assume "hd (digits n) = CHR ''-''"
  then have "(of_char (hd (digits n)) :: nat) = 45" by simp
  with hd_digits [of n] show False by simp
qed

lemma hd_str_int: "(of_char (hd (str_int i)) :: nat) \<le> 57"
  using hd_digits [of "nat i"] by (simp add: str_int_def)

lemma str_int_inj: "str_int a = str_int b \<Longrightarrow> a = b"
proof -
  assume eq: "str_int a = str_int b"
  show ?thesis
  proof (cases "a < 0")
    case True
    note a = this
    show ?thesis
    proof (cases "b < 0")
      case True
      with a eq have "digits (nat (- a)) = digits (nat (- b))"
        by (simp add: str_int_def)
      then have "nat (- a) = nat (- b)" by (rule digits_inj)
      with a True show ?thesis by simp
    next
      case False
      with a eq have "CHR ''-'' # digits (nat (- a)) = digits (nat b)"
        by (simp add: str_int_def)
      then have "hd (digits (nat b)) = CHR ''-''" by (metis list.sel(1))
      with hd_digits_not_minus show ?thesis by simp
    qed
  next
    case False
    note a = this
    show ?thesis
    proof (cases "b < 0")
      case True
      with a eq have "digits (nat a) = CHR ''-'' # digits (nat (- b))"
        by (simp add: str_int_def)
      then have "hd (digits (nat a)) = CHR ''-''" by simp
      with hd_digits_not_minus show ?thesis by simp
    next
      case False
      with a eq have "digits (nat a) = digits (nat b)"
        by (simp add: str_int_def)
      then have "nat a = nat b" by (rule digits_inj)
      with a False show ?thesis by simp
    qed
  qed
qed

lemma LABEL_MAP_None: "map_of LABEL_MAP c = None \<longleftrightarrow> \<not> (0 \<le> c \<and> c \<le> 7)"
  by (auto simp: LABEL_MAP_def)

lemma label_of_fallback: "map_of LABEL_MAP c = None \<Longrightarrow> label_of c = str_int c"
  by (simp add: label_of_def dict_get_def)

lemma label_of_cases:
  "map_of LABEL_MAP c \<noteq> None \<Longrightarrow>
     (c = 0 \<and> label_of c = ''Asthma'') \<or> (c = 1 \<and> label_of c = ''Bronchiectasis'')
   \<or> (c = 2 \<and> label_of c = ''Bronchiolitis'') \<or> (c = 3 \<and> label_of c = ''COPD'')
   \<or> (c = 4 \<and> label_of c = ''Pneumonia'') \<or> (c = 5 \<and> label_of c = ''LRTI'')
   \<or> (c = 6 \<and> label_of c = ''Healthy'') \<or> (c = 7 \<and> label_of c = ''URTI'')"
  by (simp add: label_of_def dict_get_def LABEL_MAP_def split: if_splits)


lemma label_hd: "s \<in> LABEL_SET \<Longrightarrow> 65 \<le> (of_char (hd s) :: nat)"
  by (auto simp: LABEL_SET_def)

lemma label_of_in_set: "map_of LABEL_MAP c \<noteq> None \<Longrightarrow> label_of c \<in> LABEL_SET"
  using label_of_cases [of c] by (auto simp: LABEL_SET_def)

lemma str_int_not_label: "str_int c \<notin> LABEL_SET"
  using label_hd [of "str_int c"] hd_str_int [of c] by auto

lemma label_of_inj_known:
  "map_of LABEL_MAP a \<noteq> None \<Longrightarrow> map_of LABEL_MAP b \<noteq> None \<Longrightarrow> label_of a = label_of b
     \<Longrightarrow> a = b"
  using label_of_cases [of a] label_of_cases [of b] by auto

lemma label_of_inj: "label_of a = label_of b \<Longrightarrow> a = b"
proof -
  assume eq: "label_of a = label_of b"
  show ?thesis
  proof (cases "map_of LABEL_MAP a = None")
    case True
    note a = this
    show ?thesis
    proof (cases "map_of LABEL_MAP b = None")
      case True
      with a eq have "str_int a = str_int b" by (simp add: label_of_fallback)
      then show ?thesis by (rule str_int_inj)
    next
      case False
      from label_of_in_set [OF False] eq a have "str_int a \<in> LABEL_SET"
        by (simp add: label_of_fallback)
      with str_int_not_label show ?thesis by simp
    qed
  next
    case False
    note a = this
    show ?thesis
    proof (cases "map_of LABEL_MAP b = None")
      case True
      from label_of_in_set [OF a] eq True have "str_int b \<in> LABEL_SET"
        by (simp add: label_of_fallback)
      with str_int_not_label show ?thesis by simp
    next
      case False
      from a False eq show ?thesis by (rule label_of_inj_known)
    qed
  qed
qed

lemma update_fresh: "k \<notin> fst ` set al \<Longrightarrow> AList.update k v al = al @ [(k, v)]"
  by (induction al) auto

lemma fold_update_distinct:
  "distinct (map fst kvs) \<Longrightarrow> fst ` set kvs \<inter> fst ` set acc = {} \<Longrightarrow>
     fold (\<lambda>kv d. AList.update (fst kv) (snd kv) d) kvs acc = acc @ kvs"
proof (induction kvs arbitrary: acc)
  case Nil
  then show ?case by simp
next
  case (Cons kv kvs)
  from Cons.prems have fresh: "fst kv \<notin> fst ` set acc" by auto
  have "fold (\<lambda>kv d. AList.update (fst kv) (snd kv) d) (kv # kvs) acc
      = fold (\<lambda>kv d. AList.update (fst kv) (snd kv) d) kvs (acc @ [kv])"
    using update_fresh [OF fresh, of "snd kv"] by simp
  also have "\<dots> = (acc @ [kv]) @ kvs"
    using Cons.prems by (intro Cons.IH) auto
  finally show ?case by simp
qed

lemma dict_of_pairs_distinct: "distinct (map fst kvs) \<Longrightarrow> dict_of_pairs kvs = kvs"
  unfolding dict_of_pairs_def using fold_update_distinct [of kvs "[]"] by simp

lemma dict_of_pairs_keys: "fst ` set (dict_of_pairs kvs) = fst ` set kvs"
proof -
  have "fst ` set (fold (\<lambda>kv d. AList.update (fst kv) (snd kv) d) kvs acc)
      = fst ` set acc \<union> fst ` set kvs" for acc
    by (induction kvs arbitrary: acc) (auto simp: dom_update)
  from this [of "[]"] show ?thesis by (simp add: dict_of_pairs_def)
qed

lemma distinct_map_label_of: "distinct cs \<Longrightarrow> distinct (map label_of cs)"
  by (simp add: distinct_map inj_on_def) (blast dest: label_of_inj)


subsection \<open>Facts about predict_condition\<close>

lemma index0_Inr: "index0 xs = Inr x \<longleftrightarrow> (\<exists>ys. xs = x # ys)"
  by (cases xs) auto

lemma fold_max_Max: "fold max xs (x::real) = Max (set (x # xs))"
  by (simp only: Max.set_eq_fold)

lemma np_max_Inr: "np_max xs = Inr m \<longleftrightarrow> xs \<noteq> [] \<and> m = Max (set xs)"
proof (cases xs)
  case Nil
  then show ?thesis by simp
next
  case (Cons a list)
  have "fold max list a = Max (set xs)"
    unfolding Cons by (rule fold_max_Max)
  with Cons show ?thesis by auto
qed

lemma predict_condition_Inr:
  assumes "predict_condition lib fs wav mp = Inr r"
  obtains model df pred preds probs probas where
    "path_exists lib fs mp"
    "joblib_load lib fs mp = Inr model"
    "pipeline_transform lib fs [wav] = Inr df"
    "model_predict model df = Inr (pred # preds)"
    "model_predict_proba model df = Inr (probs # probas)"
    "probs \<noteq> []"
    "r = \<lparr>prediction = label_of pred, probability = Max (set probs),
          all_probabilities = dict_of_pairs (zip (map label_of (model_classes model)) probs)\<rparr>"
  using assms unfolding predict_condition_def
  by (auto simp: index0_Inr np_max_Inr split: if_splits sum.splits)

lemma predict_condition_ok:
  assumes "path_exists lib fs mp"
    and "joblib_load lib fs mp = Inr model"
    and "pipeline_transform lib fs [wav] = Inr df"
    and "model_predict model df = Inr (pred # preds)"
    and "model_predict_proba model df = Inr (probs # probas)"
    and "probs \<noteq> []"
  shows "predict_condition lib fs wav mp =
     Inr \<lparr>prediction = label_of pred, probability = Max (set probs),
          all_probabilities = dict_of_pairs (zip (map label_of (model_classes model)) probs)\<rparr>"
proof -
  from assms(6) obtain x xs where "probs = x # xs" by (cases probs) auto
  with assms show ?thesis
    by (simp add: predict_condition_def fold_max_Max del: set_simps)
qed

subsection \<open>Facts about the example world\<close>

lemma file_stats_loop_ok:
  "\<forall>x\<in>set features. concat (snd x) \<noteq> [] \<Longrightarrow> \<exists>r. file_stats_loop file_stats features = Inr r"
proof (induction features arbitrary: file_stats)
  case Nil
  then show ?case by simp
next
  case (Cons f features)
  obtain name arr where f: "f = (name, arr)" by (cases f)
  from Cons.prems f obtain x xs where xs: "concat arr = x # xs"
    by (cases "concat arr") auto
  from Cons.prems have "\<forall>x\<in>set features. concat (snd x) \<noteq> []" by simp
  from Cons.IH [OF this] show ?case
    by (simp add: f xs Let_def)
qed

lemma demo_features:
  "FeatureExtractor_transform (demo_library p clf) [(name, info)] =
     Inr [(name,
       [(''chroma_stft'', [[1, 3]]), (''mfcc'', [[1, 3]]), (''mel_spectrogram'', [[1, 3]]),
        (''spectral_contrast'', [[1, 3]]), (''spectral_centroid'', [[1, 3]]),
        (''spectral_bandwidth'', [[1, 3]]), (''spectral_rolloff'', [[1, 3]]),
        (''zero_crossing_rate'', [[1, 3]])])]"
  by (simp add: demo_library_def extract_features_def)

lemma demo_pipeline: "\<exists>df. pipeline_transform (demo_library p clf) fs [''/tmp/a.wav''] = Inr df"
proof -
  have load: "AudioLoader_transform (demo_library p clf) fs [''/tmp/a.wav'']
      = Inr [(''a.wav'', \<lparr>data = [1, 2, 3], sample_rate = 2\<rparr>)]"
    by (simp add: AudioLoader_transform_def demo_library_def basename_def)
  obtain info where trim: "AudioTrimmer_transform 7.856
      [(''a.wav'', \<lparr>data = [1, 2, 3], sample_rate = 2\<rparr>)] = [(''a.wav'', info)]"
    by (simp add: AudioTrimmer_transform_def)
  obtain row where row: "file_stats_loop [(''filename'', Str ''a.wav'')]
       [(''chroma_stft'', [[1, 3]]), (''mfcc'', [[1, 3]]), (''mel_spectrogram'', [[1, 3]]),
        (''spectral_contrast'', [[1, 3]]), (''spectral_centroid'', [[1, 3]]),
        (''spectral_bandwidth'', [[1, 3]]), (''spectral_rolloff'', [[1, 3]]),
        (''zero_crossing_rate'', [[1, 3]])] = Inr row"
    using file_stats_loop_ok [of "[(''chroma_stft'', [[1, 3]]), (''mfcc'', [[1, 3]]), (''mel_spectrogram'', [[1, 3]]),
        (''spectral_contrast'', [[1, 3]]), (''spectral_centroid'', [[1, 3]]),
        (''spectral_bandwidth'', [[1, 3]]), (''spectral_rolloff'', [[1, 3]]),
        (''zero_crossing_rate'', [[1, 3]])]" "[(''filename'', Str ''a.wav'')]"]
    by auto
  show ?thesis
    by (simp only: pipeline_transform_def load trim row sum.case demo_features
        FeatureStatisticsCalculator_transform_def feature_stats_loop.simps) blast
qed

lemma demo_predict_condition:
  "predict_condition (demo_library True (demo_classifier pred cs (q # qs))) fs ''/tmp/a.wav'' mp =
     Inr \<lparr>prediction = label_of pred, probability = Max (set (q # qs)),
          all_probabilities = dict_of_pairs (zip (map label_of cs) (q # qs))\<rparr>"
proof -
  obtain df where df: "pipeline_transform (demo_library True (demo_classifier pred cs (q # qs))) fs
      [''/tmp/a.wav''] = Inr df"
    using demo_pipeline by blast
  have "predict_condition (demo_library True (demo_classifier pred cs (q # qs))) fs ''/tmp/a.wav'' mp =
     Inr \<lparr>prediction = label_of pred, probability = Max (set (q # qs)),
          all_probabilities = dict_of_pairs (zip (map label_of
            (model_classes (demo_classifier pred cs (q # qs)))) (q # qs))\<rparr>"
    by (rule predict_condition_ok [where model = "demo_classifier pred cs (q # qs)"
          and preds = "[]" and probas = "[]", OF _ _ df])
      (simp_all add: demo_library_def demo_classifier_def)
  then show ?thesis by (simp add: demo_classifier_def)
qed


subsection \<open>Trimming\<close>

lemma map_of_AudioTrimmer_transform:
  "map_of (AudioTrimmer_transform td X) k =
     map_option
       (\<lambda>info. \<lparr>data = trim_data (target_samples td (sample_rate info)) (data info),
                 sample_rate = sample_rate info, duration = td\<rparr>)
       (map_of X k)"
  by (induction X) (auto simp: AudioTrimmer_transform_def)

lemma target_samples_nonneg:
  assumes "0 \<le> td" and "0 \<le> sr"
  shows "0 \<le> target_samples td sr"
proof -
  from assms have "0 \<le> td * real_of_int sr" by simp
  then show ?thesis by (simp add: target_samples_def py_int_def)
qed

text \<open>
  C1. Every waveform handed to the trimming step comes out with exactly the target
  sample count \<open>int(target_duration * sample_rate)\<close>: a shorter waveform is followed
  by zeros up to that count, a waveform with at least that many samples is cut to its
  first samples. The target duration and the decoder's sample rate are not negative.
\<close>

theorem trimmer_exact_length:
  assumes "map_of X name = Some info"
    and "0 \<le> td"
    and "0 \<le> sample_rate info"
  shows "\<exists>out. map_of (AudioTrimmer_transform td X) name = Some out
     \<and> int (length (data out)) = target_samples td (sample_rate info)
     \<and> (int (length (data info)) < target_samples td (sample_rate info) \<longrightarrow>
          data out = data info @
            replicate (nat (target_samples td (sample_rate info)) - length (data info)) 0)
     \<and> (target_samples td (sample_rate info) \<le> int (length (data info)) \<longrightarrow>
          data out = take (nat (target_samples td (sample_rate info))) (data info))"
  using assms(1) target_samples_nonneg [OF assms(2,3)]
  by (auto simp: map_of_AudioTrimmer_transform trim_data_def np_pad_end_def slice_to_def
      nat_diff_distrib)

theorem trimmer_exact_length_witness:
  "map_of [(''a.wav'', \<lparr>data = [1, 2, 3], sample_rate = 2\<rparr>)] ''a.wav''
     = Some \<lparr>data = [1, 2, 3], sample_rate = 2\<rparr>
   \<and> (0 :: real) \<le> 2.5
   \<and> 0 \<le> sample_rate \<lparr>data = [1, 2, 3], sample_rate = 2\<rparr>
   \<and> target_samples 2.5 2 = 5
   \<and> (\<exists>out. map_of (AudioTrimmer_transform 2.5
                  [(''a.wav'', \<lparr>data = [1, 2, 3], sample_rate = 2\<rparr>)]) ''a.wav'' = Some out
          \<and> int (length (data out)) = 5
          \<and> data out = [1, 2, 3, 0, 0])"
  using trimmer_exact_length [of "[(''a.wav'', \<lparr>data = [1, 2, 3], sample_rate = 2\<rparr>)]"
      "''a.wav''" "\<lparr>data = [1, 2, 3], sample_rate = 2\<rparr>" "2.5"]
  by (simp add: target_samples_def py_int_def numeral_2_eq_2)

subsection \<open>The predicted label\<close>

lemma str_int_8: "str_int 8 = ''8''"
  by code_simp

lemma label_of_examples:
  "label_of 3 = ''COPD''" "label_of 6 = ''Healthy''" "label_of 8 = ''8''"
  by (simp_all add: label_of_def dict_get_def LABEL_MAP_def str_int_8)

lemma dict_of_pairs_example:
  "dict_of_pairs [(''Healthy'', 1 / 4), (''8'', 3 / 4 :: real)] = [(''Healthy'', 1 / 4), (''8'', 3 / 4)]"
  by (simp add: dict_of_pairs_def)

text \<open>
  C2, as stated, fails: a classifier trained on a ninth class predicts the index 8, the
  prediction succeeds, and the label returned is the string \<open>8\<close>, which is none of the
  eight labels.
\<close>

theorem predicted_label_outside_label_set:
  "predict_condition (demo_library True (demo_classifier 8 [6, 8] [1 / 4, 3 / 4])) []
       ''/tmp/a.wav'' ''respiratory_classifier.pkl''
     = Inr \<lparr>prediction = ''8'', probability = 3 / 4,
            all_probabilities = [(''Healthy'', 1 / 4), (''8'', 3 / 4)]\<rparr>
   \<and> ''8'' \<notin> LABEL_SET"
  by (simp add: demo_predict_condition label_of_examples dict_of_pairs_example LABEL_SET_def)

text \<open>
  C2, amended. For every successful prediction the label returned belongs to the classifier's
  first predicted class index: one of the eight labels when that index is a key of the
  label map (0 to 7), and otherwise the decimal string of the index, which is not one of
  the eight labels.
\<close>

theorem predicted_label_in_set_or_decimal:
  assumes "predict_condition lib fs wav mp = Inr r"
  shows "\<exists>model df pred preds.
           joblib_load lib fs mp = Inr model
         \<and> pipeline_transform lib fs [wav] = Inr df
         \<and> model_predict model df = Inr (pred # preds)
         \<and> (if 0 \<le> pred \<and> pred \<le> 7 then prediction r \<in> LABEL_SET
            else prediction r = str_int pred \<and> prediction r \<notin> LABEL_SET)"
proof -
  from assms obtain model df pred preds probs probas where
    m: "joblib_load lib fs mp = Inr model" and
    df: "pipeline_transform lib fs [wav] = Inr df" and
    p: "model_predict model df = Inr (pred # preds)" and
    r: "r = \<lparr>prediction = label_of pred, probability = Max (set probs),
          all_probabilities = dict_of_pairs (zip (map label_of (model_classes model)) probs)\<rparr>"
    by (rule predict_condition_Inr)
  have "if 0 \<le> pred \<and> pred \<le> 7 then prediction r \<in> LABEL_SET
            else prediction r = str_int pred \<and> prediction r \<notin> LABEL_SET"
  proof (cases "map_of LABEL_MAP pred = None")
    case True
    have "label_of pred = str_int pred" by (rule label_of_fallback [OF True])
    moreover have "\<not> (0 \<le> pred \<and> pred \<le> 7)"
      using True by (auto simp: LABEL_MAP_None)
    ultimately show ?thesis
      using str_int_not_label [of pred] by (simp add: r)
  next
    case False
    then have "0 \<le> pred \<and> pred \<le> 7"
      by (auto simp: LABEL_MAP_None)
    then show ?thesis
      using label_of_in_set [OF False] by (simp add: r)
  qed
  with m df p show ?thesis by blast
qed

theorem predicted_label_in_set_or_decimal_witness:
  "predict_condition (demo_library True (demo_classifier 3 [3, 6] [3 / 4, 1 / 4])) []
       ''/tmp/a.wav'' ''respiratory_classifier.pkl''
     = Inr \<lparr>prediction = ''COPD'', probability = 3 / 4,
            all_probabilities = [(''COPD'', 3 / 4), (''Healthy'', 1 / 4)]\<rparr>
   \<and> (\<exists>model df pred preds.
           joblib_load (demo_library True (demo_classifier 3 [3, 6] [3 / 4, 1 / 4])) []
             ''respiratory_classifier.pkl'' = Inr model
         \<and> pipeline_transform (demo_library True (demo_classifier 3 [3, 6] [3 / 4, 1 / 4])) []
             [''/tmp/a.wav''] = Inr df
         \<and> model_predict model df = Inr (pred # preds)
         \<and> (if 0 \<le> pred \<and> pred \<le> 7
            then prediction \<lparr>prediction = ''COPD'', probability = 3 / 4,
                   all_probabilities = [(''COPD'', 3 / 4), (''Healthy'', 1 / 4)]\<rparr> \<in> LABEL_SET
            else prediction \<lparr>prediction = ''COPD'', probability = 3 / 4,
                   all_probabilities = [(''COPD'', 3 / 4), (''Healthy'', 1 / 4)]\<rparr> = str_int pred
               \<and> prediction \<lparr>prediction = ''COPD'', probability = 3 / 4,
                   all_probabilities = [(''COPD'', 3 / 4), (''Healthy'', 1 / 4)]\<rparr> \<notin> LABEL_SET))"
proof -
  have e: "predict_condition (demo_library True (demo_classifier 3 [3, 6] [3 / 4, 1 / 4])) []
       ''/tmp/a.wav'' ''respiratory_classifier.pkl''
     = Inr \<lparr>prediction = ''COPD'', probability = 3 / 4,
            all_probabilities = [(''COPD'', 3 / 4), (''Healthy'', 1 / 4)]\<rparr>"
    by (simp add: demo_predict_condition label_of_examples dict_of_pairs_def)
  from e predicted_label_in_set_or_decimal [OF e] show ?thesis by (rule conjI)
qed

subsection \<open>The probabilities\<close>

lemma all_probabilities_values:
  assumes "distinct cs" and "length probs = length cs"
  shows "map snd (dict_of_pairs (zip (map label_of cs) probs)) = probs"
proof -
  have "distinct (map fst (zip (map label_of cs) probs))"
    using assms distinct_map_label_of [of cs] by (simp add: map_fst_zip)
  then have "dict_of_pairs (zip (map label_of cs) probs) = zip (map label_of cs) probs"
    by (rule dict_of_pairs_distinct)
  with assms show ?thesis by (simp add: map_snd_zip)
qed

text \<open>
  C3. For every successful prediction the reported probability is the largest value of
  the returned per-class mapping. The classifier is a scikit-learn classifier: its classes
  are pairwise different and each row of \<open>predict_proba\<close> has one entry per class.
\<close>

theorem top_probability_is_max:
  assumes "predict_condition lib fs wav mp = Inr r"
    and "joblib_load lib fs mp = Inr model"
    and "distinct (model_classes model)"
    and "\<forall>df row rows. model_predict_proba model df = Inr (row # rows)
           \<longrightarrow> length row = length (model_classes model)"
  shows "probability r = Max (snd ` set (all_probabilities r))"
proof -
  from assms(1) obtain model' df pred preds probs probas where
    m: "joblib_load lib fs mp = Inr model'" and
    pp: "model_predict_proba model' df = Inr (probs # probas)" and
    r: "r = \<lparr>prediction = label_of pred, probability = Max (set probs),
          all_probabilities = dict_of_pairs (zip (map label_of (model_classes model')) probs)\<rparr>"
    by (rule predict_condition_Inr)
  from m assms(2) have same: "model' = model" by simp
  from assms(4) pp same have len: "length probs = length (model_classes model)" by blast
  have "map snd (all_probabilities r) = probs"
    unfolding r same using all_probabilities_values [OF assms(3) len] by simp
  then have "snd ` set (all_probabilities r) = set probs"
    by (metis set_map)
  then show ?thesis by (simp add: r)
qed

theorem top_probability_is_max_witness:
  "predict_condition (demo_library True (demo_classifier 3 [3, 6] [3 / 4, 1 / 4])) []
       ''/tmp/a.wav'' ''respiratory_classifier.pkl''
     = Inr \<lparr>prediction = ''COPD'', probability = 3 / 4,
            all_probabilities = [(''COPD'', 3 / 4), (''Healthy'', 1 / 4)]\<rparr>
   \<and> joblib_load (demo_library True (demo_classifier 3 [3, 6] [3 / 4, 1 / 4])) []
        ''respiratory_classifier.pkl'' = Inr (demo_classifier 3 [3, 6] [3 / 4, 1 / 4])
   \<and> distinct (model_classes (demo_classifier 3 [3, 6] [3 / 4, 1 / 4]))
   \<and> model_predict_proba (demo_classifier 3 [3, 6] [3 / 4, 1 / 4]) = (\<lambda>df. Inr [[3 / 4, 1 / 4]])
   \<and> length [3 / 4, 1 / 4 :: real] = length (model_classes (demo_classifier 3 [3, 6] [3 / 4, 1 / 4]))
   \<and> (3 / 4 :: real) = Max (snd ` set [(''COPD'', 3 / 4), (''Healthy'', 1 / 4 :: real)])"
proof -
  have e: "predict_condition (demo_library True (demo_classifier 3 [3, 6] [3 / 4, 1 / 4])) []
       ''/tmp/a.wav'' ''respiratory_classifier.pkl''
     = Inr \<lparr>prediction = ''COPD'', probability = 3 / 4,
            all_probabilities = [(''COPD'', 3 / 4), (''Healthy'', 1 / 4)]\<rparr>"
    by (simp add: demo_predict_condition label_of_examples dict_of_pairs_def)
  have l: "joblib_load (demo_library True (demo_classifier 3 [3, 6] [3 / 4, 1 / 4])) []
        ''respiratory_classifier.pkl'' = Inr (demo_classifier 3 [3, 6] [3 / 4, 1 / 4])"
    by (simp add: demo_library_def)
  have d: "distinct (model_classes (demo_classifier 3 [3, 6] [3 / 4, 1 / 4]))"
    by (simp add: demo_classifier_def)
  have c: "\<forall>df row rows.
         model_predict_proba (demo_classifier 3 [3, 6] [3 / 4, 1 / 4]) df = Inr (row # rows)
           \<longrightarrow> length row = length (model_classes (demo_classifier 3 [3, 6] [3 / 4, 1 / 4]))"
    by (auto simp: demo_classifier_def)
  from top_probability_is_max [OF e l d c] e l d show ?thesis
    by (simp add: demo_classifier_def)
qed

subsection \<open>Classes outside the label map\<close>

lemma keys_zip_map:
  "fst ` set (zip (map f xs) ys) = f ` fst ` set (zip xs ys)"
  by (simp add: zip_map1 image_image split_def)

text \<open>
  C9. When the steps before the label lookup succeed, \<open>predict_condition\<close> returns a
  result whatever the class indices are: a predicted index that is not a key of the label
  map gives its decimal string as the label, every class that is not a key appears in the
  per-class mapping under its decimal string, and every key of that mapping is one of the
  eight labels or such a decimal string.
\<close>

theorem unknown_class_falls_back_to_str:
  assumes "path_exists lib fs mp"
    and "joblib_load lib fs mp = Inr model"
    and "pipeline_transform lib fs [wav] = Inr df"
    and "model_predict model df = Inr (pred # preds)"
    and "model_predict_proba model df = Inr (probs # probas)"
    and "probs \<noteq> []"
  shows "\<exists>r. predict_condition lib fs wav mp = Inr r
     \<and> (map_of LABEL_MAP pred = None \<longrightarrow> prediction r = str_int pred)
     \<and> (\<forall>c \<in> fst ` set (zip (model_classes model) probs).
           map_of LABEL_MAP c = None \<longrightarrow> str_int c \<in> fst ` set (all_probabilities r))
     \<and> (\<forall>k \<in> fst ` set (all_probabilities r).
           k \<in> LABEL_SET \<or> (\<exists>c \<in> set (model_classes model). map_of LABEL_MAP c = None \<and> k = str_int c))"
proof -
  let ?r = "\<lparr>prediction = label_of pred, probability = Max (set probs),
          all_probabilities = dict_of_pairs (zip (map label_of (model_classes model)) probs)\<rparr>"
  have ok: "predict_condition lib fs wav mp = Inr ?r"
    using assms by (rule predict_condition_ok)
  have keys: "fst ` set (all_probabilities ?r) = label_of ` fst ` set (zip (model_classes model) probs)"
    by (simp add: dict_of_pairs_keys keys_zip_map)
  have p: "map_of LABEL_MAP pred = None \<longrightarrow> prediction ?r = str_int pred"
    by (simp add: label_of_fallback)
  have a: "\<forall>c \<in> fst ` set (zip (model_classes model) probs).
           map_of LABEL_MAP c = None \<longrightarrow> str_int c \<in> fst ` set (all_probabilities ?r)"
    unfolding keys
  proof (intro ballI impI)
    fix c assume c: "c \<in> fst ` set (zip (model_classes model) probs)"
      and n: "map_of LABEL_MAP c = None"
    from c have "label_of c \<in> label_of ` fst ` set (zip (model_classes model) probs)"
      by (rule imageI)
    then show "str_int c \<in> label_of ` fst ` set (zip (model_classes model) probs)"
      by (simp only: label_of_fallback [OF n])
  qed
  have b: "\<forall>k \<in> fst ` set (all_probabilities ?r).
           k \<in> LABEL_SET \<or> (\<exists>c \<in> set (model_classes model). map_of LABEL_MAP c = None \<and> k = str_int c)"
  proof
    fix k assume "k \<in> fst ` set (all_probabilities ?r)"
    then obtain c q where cq: "(c, q) \<in> set (zip (model_classes model) probs)" and k: "k = label_of c"
      unfolding keys by auto
    from cq have c: "c \<in> set (model_classes model)" by (rule set_zip_leftD)
    show "k \<in> LABEL_SET \<or> (\<exists>c \<in> set (model_classes model). map_of LABEL_MAP c = None \<and> k = str_int c)"
    proof (cases "map_of LABEL_MAP c = None")
      case True
      with c k show ?thesis by (auto simp: label_of_fallback)
    next
      case False
      from label_of_in_set [OF False] k show ?thesis by simp
    qed
  qed
  show ?thesis
    by (rule exI [of _ ?r]) (intro conjI ok p a b)
qed

theorem unknown_class_falls_back_to_str_witness:
  "map_of LABEL_MAP 8 = None
   \<and> (\<exists>r. predict_condition (demo_library True (demo_classifier 8 [6, 8] [1 / 4, 3 / 4])) []
              ''/tmp/a.wav'' ''respiratory_classifier.pkl'' = Inr r
     \<and> (map_of LABEL_MAP 8 = None \<longrightarrow> prediction r = str_int 8)
     \<and> (\<forall>c \<in> fst ` set (zip (model_classes (demo_classifier 8 [6, 8] [1 / 4, 3 / 4]))
                               [1 / 4, 3 / 4 :: real]).
           map_of LABEL_MAP c = None \<longrightarrow> str_int c \<in> fst ` set (all_probabilities r))
     \<and> (\<forall>k \<in> fst ` set (all_probabilities r).
           k \<in> LABEL_SET
           \<or> (\<exists>c \<in> set (model_classes (demo_classifier 8 [6, 8] [1 / 4, 3 / 4])).
                 map_of LABEL_MAP c = None \<and> k = str_int c)))"
proof -
  obtain df where df: "pipeline_transform
      (demo_library True (demo_classifier 8 [6, 8] [1 / 4, 3 / 4])) [] [''/tmp/a.wav''] = Inr df"
    using demo_pipeline by blast
  have h1: "path_exists (demo_library True (demo_classifier 8 [6, 8] [1 / 4, 3 / 4])) []
      ''respiratory_classifier.pkl''"
    by (simp add: demo_library_def)
  have h2: "joblib_load (demo_library True (demo_classifier 8 [6, 8] [1 / 4, 3 / 4])) []
      ''respiratory_classifier.pkl'' = Inr (demo_classifier 8 [6, 8] [1 / 4, 3 / 4])"
    by (simp add: demo_library_def)
  have h4: "model_predict (demo_classifier 8 [6, 8] [1 / 4, 3 / 4]) df = Inr (8 # [])"
    by (simp add: demo_classifier_def)
  have h5: "model_predict_proba (demo_classifier 8 [6, 8] [1 / 4, 3 / 4]) df
      = Inr ([1 / 4, 3 / 4] # [])"
    by (simp add: demo_classifier_def)
  have h6: "[1 / 4, 3 / 4 :: real] \<noteq> []" by simp
  have n: "map_of LABEL_MAP 8 = None" by (simp add: LABEL_MAP_def)
  from n unknown_class_falls_back_to_str [OF h1 h2 df h4 h5 h6] show ?thesis
    by (rule conjI)
qed

subsection \<open>The statistics table\<close>

lemma set_first_seen: "set (first_seen ks) = set ks"
proof -
  have "set (fold (\<lambda>k acc. if k \<in> set acc then acc else acc @ [k]) ks acc) = set acc \<union> set ks"
    for acc
    by (induction ks arbitrary: acc) auto
  from this [of "[]"] show ?thesis by (simp add: first_seen_def)
qed

lemma columns_drop_excluded:
  "set (columns (drop_excluded ex d)) = set (columns d) - set ex"
  unfolding drop_excluded_def
  by (induction ex arbitrary: d) (auto simp: df_drop_def)

lemma columns_select_dtypes:
  "set (columns (select_dtypes_exclude_object d)) = {c \<in> set (columns d). \<not> is_object d c}"
  by (auto simp: select_dtypes_exclude_object_def)

lemma statistics_columns:
  assumes "FeatureStatisticsCalculator_transform ex X = Inr df"
  obtains rows where "feature_stats_loop X = Inr rows"
    and "df = select_dtypes_exclude_object (drop_excluded ex (DataFrame rows))"
  using assms unfolding FeatureStatisticsCalculator_transform_def
  by (auto split: sum.splits)

text \<open>
  C4. Whatever features the statistics step is given, the table it returns, configured as
  in \<open>create_pipeline\<close>, has neither a column \<open>mel_spectrogram_min\<close> nor a column
  \<open>chroma_stft_max\<close>.
\<close>

theorem excluded_columns_absent:
  assumes "FeatureStatisticsCalculator_transform excluded_features X = Inr df"
  shows "''mel_spectrogram_min'' \<notin> set (columns df) \<and> ''chroma_stft_max'' \<notin> set (columns df)"
proof -
  from assms obtain rows where
    df: "df = select_dtypes_exclude_object (drop_excluded excluded_features (DataFrame rows))"
    by (rule statistics_columns)
  have "set (columns df) \<subseteq> set (columns (DataFrame rows)) - set excluded_features"
    unfolding df by (auto simp: columns_select_dtypes columns_drop_excluded)
  moreover have "set excluded_features = {''mel_spectrogram_min'', ''chroma_stft_max''}"
    by (simp add: excluded_features_def)
  ultimately show ?thesis by blast
qed

lemma demo_stats_table:
  "FeatureStatisticsCalculator_transform excluded_features
     [(''a.wav'', [(''chroma_stft'', [[1, 3]]), (''mel_spectrogram'', [[1, 3]])])]
   = Inr \<lparr>columns =
            [''chroma_stft_mean'', ''chroma_stft_std'', ''chroma_stft_min'',
             ''mel_spectrogram_mean'', ''mel_spectrogram_std'', ''mel_spectrogram_max''],
          records =
            [[(''chroma_stft_mean'', Num 2), (''chroma_stft_std'', Num 1),
              (''chroma_stft_min'', Num 1), (''mel_spectrogram_mean'', Num 2),
              (''mel_spectrogram_std'', Num 1), (''mel_spectrogram_max'', Num 3)]]\<rparr>"
  by (simp add: FeatureStatisticsCalculator_transform_def excluded_features_def np_mean_def
      np_std_def DataFrame_def first_seen_def drop_excluded_def df_drop_def
      select_dtypes_exclude_object_def is_object_def power2_eq_square)

theorem excluded_columns_absent_witness:
  "FeatureStatisticsCalculator_transform excluded_features
     [(''a.wav'', [(''chroma_stft'', [[1, 3]]), (''mel_spectrogram'', [[1, 3]])])]
   = Inr \<lparr>columns =
            [''chroma_stft_mean'', ''chroma_stft_std'', ''chroma_stft_min'',
             ''mel_spectrogram_mean'', ''mel_spectrogram_std'', ''mel_spectrogram_max''],
          records =
            [[(''chroma_stft_mean'', Num 2), (''chroma_stft_std'', Num 1),
              (''chroma_stft_min'', Num 1), (''mel_spectrogram_mean'', Num 2),
              (''mel_spectrogram_std'', Num 1), (''mel_spectrogram_max'', Num 3)]]\<rparr>
   \<and> ''mel_spectrogram_min'' \<notin> set (columns \<lparr>columns =
            [''chroma_stft_mean'', ''chroma_stft_std'', ''chroma_stft_min'',
             ''mel_spectrogram_mean'', ''mel_spectrogram_std'', ''mel_spectrogram_max''],
          records =
            [[(''chroma_stft_mean'', Num 2), (''chroma_stft_std'', Num 1),
              (''chroma_stft_min'', Num 1), (''mel_spectrogram_mean'', Num 2),
              (''mel_spectrogram_std'', Num 1), (''mel_spectrogram_max'', Num 3)]]\<rparr>)
   \<and> ''chroma_stft_max'' \<notin> set (columns \<lparr>columns =
            [''chroma_stft_mean'', ''chroma_stft_std'', ''chroma_stft_min'',
             ''mel_spectrogram_mean'', ''mel_spectrogram_std'', ''mel_spectrogram_max''],
          records =
            [[(''chroma_stft_mean'', Num 2), (''chroma_stft_std'', Num 1),
              (''chroma_stft_min'', Num 1), (''mel_spectrogram_mean'', Num 2),
              (''mel_spectrogram_std'', Num 1), (''mel_spectrogram_max'', Num 3)]]\<rparr>)"
  using demo_stats_table excluded_columns_absent [OF demo_stats_table]
  by (rule conjI)

lemma stat_key_not_filename:
  "n @ ''_mean'' \<noteq> ''filename''" "n @ ''_std'' \<noteq> ''filename''"
  "n @ ''_max'' \<noteq> ''filename''" "n @ ''_min'' \<noteq> ''filename''"
proof -
  have l: "last ''filename'' = CHR ''e''" by simp
  show "n @ ''_mean'' \<noteq> ''filename''"
  proof
    assume "n @ ''_mean'' = ''filename''"
    then have "last (n @ ''_mean'') = last ''filename''" by (rule arg_cong)
    then show False by simp
  qed
  show "n @ ''_std'' \<noteq> ''filename''"
  proof
    assume "n @ ''_std'' = ''filename''"
    then have "last (n @ ''_std'') = last ''filename''" by (rule arg_cong)
    then show False by simp
  qed
  show "n @ ''_max'' \<noteq> ''filename''"
  proof
    assume "n @ ''_max'' = ''filename''"
    then have "last (n @ ''_max'') = last ''filename''" by (rule arg_cong)
    then show False by simp
  qed
  show "n @ ''_min'' \<noteq> ''filename''"
  proof
    assume "n @ ''_min'' = ''filename''"
    then have "last (n @ ''_min'') = last ''filename''" by (rule arg_cong)
    then show False by simp
  qed
qed

lemma file_stats_loop_filename:
  "file_stats_loop file_stats features = Inr r \<Longrightarrow>
     map_of r ''filename'' = map_of file_stats ''filename''"
proof (induction features arbitrary: file_stats)
  case Nil
  then show ?case by simp
next
  case (Cons f features)
  obtain name arr where f: "f = (name, arr)" by (cases f)
  from Cons.prems obtain mx mn where
    rec: "file_stats_loop
            (AList.update (name @ ''_min'') (Num mn)
              (AList.update (name @ ''_max'') (Num mx)
                (AList.update (name @ ''_std'') (Num (np_std (concat arr)))
                  (AList.update (name @ ''_mean'') (Num (np_mean (concat arr))) file_stats))))
            features = Inr r"
    by (auto simp: f Let_def split: sum.splits)
  from Cons.IH [OF rec] show ?case
    by (simp add: update_conv' stat_key_not_filename)
qed

lemma feature_stats_loop_filename:
  "feature_stats_loop X = Inr rows \<Longrightarrow>
     \<forall>r \<in> set rows. \<exists>s. map_of r ''filename'' = Some (Str s)"
proof (induction X arbitrary: rows)
  case Nil
  then show ?case by simp
next
  case (Cons x X)
  obtain name features where x: "x = (name, features)" by (cases x)
  from Cons.prems obtain row rest where
    row: "file_stats_loop [(''filename'', Str name)] features = Inr row" and
    rest: "feature_stats_loop X = Inr rest" and
    rows: "rows = row # rest"
    by (auto simp: x split: sum.splits)
  from file_stats_loop_filename [OF row] have "map_of row ''filename'' = Some (Str name)"
    by simp
  with Cons.IH [OF rest] rows show ?case by auto
qed

lemma drop_excluded_keeps_filename:
  assumes "''filename'' \<notin> set ex"
    and "\<forall>r \<in> set (records d). \<exists>s. map_of r ''filename'' = Some (Str s)"
  shows "\<forall>r \<in> set (records (drop_excluded ex d)). \<exists>s. map_of r ''filename'' = Some (Str s)"
  using assms unfolding drop_excluded_def
proof (induction ex arbitrary: d)
  case Nil
  then show ?case by simp
next
  case (Cons c ex)
  let ?d = "if c \<in> set (columns d) then df_drop c d else d"
  from Cons.prems have c: "c \<noteq> ''filename''" and ex: "''filename'' \<notin> set ex" by auto
  have "\<forall>r \<in> set (records ?d). \<exists>s. map_of r ''filename'' = Some (Str s)"
    using Cons.prems(2) c by (auto simp: df_drop_def delete_conv')
  from Cons.IH [OF ex this] show ?case by simp
qed

lemma drop_excluded_records_empty:
  "records (drop_excluded ex d) = [] \<longleftrightarrow> records d = []"
  unfolding drop_excluded_def
  by (induction ex arbitrary: d) (auto simp: df_drop_def)

text \<open>
  C10. Every row the statistics step builds holds the file name, a string, under the key
  \<open>filename\<close>; a column of strings has dtype \<open>object\<close>, so the final
  \<open>select_dtypes(exclude=['object'])\<close> removes it: the table handed on never has a
  \<open>filename\<close> column, whatever the excluded names are.
\<close>

theorem filename_column_absent:
  assumes "FeatureStatisticsCalculator_transform ex X = Inr df"
  shows "''filename'' \<notin> set (columns df)"
proof
  assume in_df: "''filename'' \<in> set (columns df)"
  from assms obtain rows where
    rows: "feature_stats_loop X = Inr rows" and
    df: "df = select_dtypes_exclude_object (drop_excluded ex (DataFrame rows))"
    by (rule statistics_columns)
  let ?d = "drop_excluded ex (DataFrame rows)"
  from in_df have col: "''filename'' \<in> set (columns ?d)" and num: "\<not> is_object ?d ''filename''"
    unfolding df by (simp_all add: columns_select_dtypes)
  from col have notex: "''filename'' \<notin> set ex"
    and "''filename'' \<in> set (columns (DataFrame rows))"
    by (simp_all add: columns_drop_excluded)
  then have "rows \<noteq> []" by (auto simp: DataFrame_def set_first_seen)
  then have nonempty: "records ?d \<noteq> []"
    by (simp add: drop_excluded_records_empty DataFrame_def)
  have "\<forall>r \<in> set (records (DataFrame rows)). \<exists>s. map_of r ''filename'' = Some (Str s)"
    using feature_stats_loop_filename [OF rows] by (simp add: DataFrame_def)
  from drop_excluded_keeps_filename [OF notex this]
  have all: "\<forall>r \<in> set (records ?d). \<exists>s. map_of r ''filename'' = Some (Str s)" .
  from nonempty obtain r where r: "r \<in> set (records ?d)" by (cases "records ?d") auto
  with all obtain s where "map_of r ''filename'' = Some (Str s)" by blast
  with r have "is_object ?d ''filename''"
    unfolding is_object_def list_ex_iff by (intro bexI [of _ r]) simp_all
  with num show False by simp
qed

text \<open>The rows of the example, before the table is built: the file name is recorded.\<close>

lemma demo_stats_rows:
  "feature_stats_loop [(''a.wav'', [(''chroma_stft'', [[1, 3]]), (''mel_spectrogram'', [[1, 3]])])]
   = Inr [[(''filename'', Str ''a.wav''),
           (''chroma_stft_mean'', Num 2), (''chroma_stft_std'', Num 1),
           (''chroma_stft_max'', Num 3), (''chroma_stft_min'', Num 1),
           (''mel_spectrogram_mean'', Num 2), (''mel_spectrogram_std'', Num 1),
           (''mel_spectrogram_max'', Num 3), (''mel_spectrogram_min'', Num 1)]]"
  by (simp add: np_mean_def np_std_def power2_eq_square)

theorem filename_column_absent_witness:
  "FeatureStatisticsCalculator_transform excluded_features
     [(''a.wav'', [(''chroma_stft'', [[1, 3]]), (''mel_spectrogram'', [[1, 3]])])]
   = Inr \<lparr>columns =
            [''chroma_stft_mean'', ''chroma_stft_std'', ''chroma_stft_min'',
             ''mel_spectrogram_mean'', ''mel_spectrogram_std'', ''mel_spectrogram_max''],
          records =
            [[(''chroma_stft_mean'', Num 2), (''chroma_stft_std'', Num 1),
              (''chroma_stft_min'', Num 1), (''mel_spectrogram_mean'', Num 2),
              (''mel_spectrogram_std'', Num 1), (''mel_spectrogram_max'', Num 3)]]\<rparr>
   \<and> ''filename'' \<notin> set (columns \<lparr>columns =
            [''chroma_stft_mean'', ''chroma_stft_std'', ''chroma_stft_min'',
             ''mel_spectrogram_mean'', ''mel_spectrogram_std'', ''mel_spectrogram_max''],
          records =
            [[(''chroma_stft_mean'', Num 2), (''chroma_stft_std'', Num 1),
              (''chroma_stft_min'', Num 1), (''mel_spectrogram_mean'', Num 2),
              (''mel_spectrogram_std'', Num 1), (''mel_spectrogram_max'', Num 3)]]\<rparr>)"
  using demo_stats_table filename_column_absent [OF demo_stats_table]
  by (rule conjI)

subsection \<open>The handler\<close>

text \<open>
  C5. A request whose form data has no \<open>file\<close> field is answered with status 400 and
  a JSON body with an \<open>error\<close> field. The world is returned as it was: no file is
  saved and nothing is printed; the answer is the same whatever the libraries and the
  model would do, since neither is consulted.
\<close>

theorem missing_file_field_400:
  assumes "map_of (files req) ''file'' = None"
  shows "predict lib w req = (Response (JObject [(''error'', JString ''No file uploaded'')]) 400, w)
     \<and> json_field (JObject [(''error'', JString ''No file uploaded'')]) ''error''
           = Some (JString ''No file uploaded'')"
  using assms by (simp add: predict_def)

theorem missing_file_field_400_witness:
  "map_of (files \<lparr>files = []\<rparr>) ''file'' = None
   \<and> predict (demo_library True (demo_classifier 3 [3, 6] [3 / 4, 1 / 4])) empty_world
         \<lparr>files = []\<rparr>
       = (Response (JObject [(''error'', JString ''No file uploaded'')]) 400, empty_world)
   \<and> json_field (JObject [(''error'', JString ''No file uploaded'')]) ''error''
           = Some (JString ''No file uploaded'')"
  using missing_file_field_400 [of "\<lparr>files = []\<rparr>"
      "demo_library True (demo_classifier 3 [3, 6] [3 / 4, 1 / 4])" empty_world]
  by simp

text \<open>
  C6. For a request with a \<open>file\<close> field whose upload has been saved, every exception
  raised by \<open>predict_condition\<close> is answered with status 500 and a JSON body whose
  \<open>error\<close> field is the exception's message; in particular, when the model artifact
  \<open>respiratory_classifier.pkl\<close> does not exist, the message is that of the
  FileNotFoundError.
\<close>

theorem prediction_exception_500:
  assumes "map_of (files req) ''file'' = Some file"
    and "file_save lib w file (os_path_join (gettempdir lib) (filename file)) = Inr w'"
  shows "(\<forall>e. predict_condition lib (saved w') (os_path_join (gettempdir lib) (filename file))
               ''respiratory_classifier.pkl'' = Inl e
            \<longrightarrow> fst (predict lib w req) = Response (JObject [(''error'', JString (str_exn e))]) 500
              \<and> json_field (JObject [(''error'', JString (str_exn e))]) ''error''
                  = Some (JString (str_exn e)))
     \<and> (\<not> path_exists lib (saved w') ''respiratory_classifier.pkl''
            \<longrightarrow> fst (predict lib w req) =
                  Response (JObject [(''error'',
                    JString ''Model file not found: respiratory_classifier.pkl'')]) 500)"
  using assms by (simp add: predict_def Let_def predict_condition_def)

theorem prediction_exception_500_witness:
  "map_of (files (demo_request ''a.wav'' ''RIFF'')) ''file''
       = Some \<lparr>filename = ''a.wav'', stream = ''RIFF''\<rparr>
   \<and> file_save (demo_library False (demo_classifier 3 [3, 6] [3 / 4, 1 / 4])) empty_world
        \<lparr>filename = ''a.wav'', stream = ''RIFF''\<rparr> ''/tmp/a.wav''
       = Inr \<lparr>saved = [(''/tmp/a.wav'', ''RIFF'')], printed = []\<rparr>
   \<and> \<not> path_exists (demo_library False (demo_classifier 3 [3, 6] [3 / 4, 1 / 4]))
          [(''/tmp/a.wav'', ''RIFF'')] ''respiratory_classifier.pkl''
   \<and> fst (predict (demo_library False (demo_classifier 3 [3, 6] [3 / 4, 1 / 4])) empty_world
             (demo_request ''a.wav'' ''RIFF''))
       = Response (JObject [(''error'',
                    JString ''Model file not found: respiratory_classifier.pkl'')]) 500"
proof -
  have f: "map_of (files (demo_request ''a.wav'' ''RIFF'')) ''file''
       = Some \<lparr>filename = ''a.wav'', stream = ''RIFF''\<rparr>"
    by (simp add: demo_request_def)
  have p: "os_path_join (gettempdir (demo_library False (demo_classifier 3 [3, 6] [3 / 4, 1 / 4])))
        (filename \<lparr>filename = ''a.wav'', stream = ''RIFF''\<rparr>) = ''/tmp/a.wav''"
    by (simp add: demo_library_def os_path_join_def)
  have s: "file_save (demo_library False (demo_classifier 3 [3, 6] [3 / 4, 1 / 4])) empty_world
        \<lparr>filename = ''a.wav'', stream = ''RIFF''\<rparr>
        (os_path_join (gettempdir (demo_library False (demo_classifier 3 [3, 6] [3 / 4, 1 / 4])))
           (filename \<lparr>filename = ''a.wav'', stream = ''RIFF''\<rparr>))
       = Inr \<lparr>saved = [(''/tmp/a.wav'', ''RIFF'')], printed = []\<rparr>"
    unfolding p by (simp add: file_save_def demo_library_def empty_world_def)
  have n: "\<not> path_exists (demo_library False (demo_classifier 3 [3, 6] [3 / 4, 1 / 4]))
          [(''/tmp/a.wav'', ''RIFF'')] ''respiratory_classifier.pkl''"
    by (simp add: demo_library_def)
  from prediction_exception_500 [OF f s] n s f show ?thesis
    unfolding p by simp
qed

text \<open>
  C8. Two requests whose uploads carry the same file name are both written to the same
  path, \<open>os.path.join(tempfile.gettempdir(), filename)\<close>: the path is a function of the
  temporary directory and the uploaded name alone. (The write is recorded when
  \<open>file.save\<close> does not raise.)
\<close>

theorem same_filename_same_path:
  assumes "map_of (files req1) ''file'' = Some f1"
    and "map_of (files req2) ''file'' = Some f2"
    and "filename f1 = filename f2"
    and "save_error lib (saved w1) (os_path_join (gettempdir lib) (filename f1)) = None"
    and "save_error lib (saved w2) (os_path_join (gettempdir lib) (filename f1)) = None"
  shows "saved (snd (predict lib w1 req1))
           = saved w1 @ [(os_path_join (gettempdir lib) (filename f1), stream f1)]
     \<and> saved (snd (predict lib w2 req2))
           = saved w2 @ [(os_path_join (gettempdir lib) (filename f1), stream f2)]"
  using assms by (simp add: predict_def Let_def file_save_def split: sum.splits)

theorem same_filename_same_path_witness:
  "map_of (files (demo_request ''a.wav'' ''first'')) ''file''
       = Some \<lparr>filename = ''a.wav'', stream = ''first''\<rparr>
   \<and> map_of (files (demo_request ''a.wav'' ''second'')) ''file''
       = Some \<lparr>filename = ''a.wav'', stream = ''second''\<rparr>
   \<and> saved (snd (predict (demo_library False (demo_classifier 3 [3, 6] [3 / 4, 1 / 4]))
                   empty_world (demo_request ''a.wav'' ''first'')))
       = [(''/tmp/a.wav'', ''first'')]
   \<and> saved (snd (predict (demo_library False (demo_classifier 3 [3, 6] [3 / 4, 1 / 4]))
                   \<lparr>saved = [(''/tmp/a.wav'', ''first'')], printed = []\<rparr>
                   (demo_request ''a.wav'' ''second'')))
       = [(''/tmp/a.wav'', ''first''), (''/tmp/a.wav'', ''second'')]"
proof -
  have f1: "map_of (files (demo_request ''a.wav'' ''first'')) ''file''
       = Some \<lparr>filename = ''a.wav'', stream = ''first''\<rparr>"
    by (simp add: demo_request_def)
  have f2: "map_of (files (demo_request ''a.wav'' ''second'')) ''file''
       = Some \<lparr>filename = ''a.wav'', stream = ''second''\<rparr>"
    by (simp add: demo_request_def)
  have n: "filename \<lparr>filename = ''a.wav'', stream = ''first''\<rparr>
      = filename \<lparr>filename = ''a.wav'', stream = ''second''\<rparr>"
    by simp
  have p: "os_path_join (gettempdir (demo_library False (demo_classifier 3 [3, 6] [3 / 4, 1 / 4])))
        (filename \<lparr>filename = ''a.wav'', stream = ''first''\<rparr>) = ''/tmp/a.wav''"
    by (simp add: demo_library_def os_path_join_def)
  have s: "save_error (demo_library False (demo_classifier 3 [3, 6] [3 / 4, 1 / 4])) fs q = None"
    for fs q
    by (simp add: demo_library_def)
  from same_filename_same_path [OF f1 f2 n s s, of empty_world
      "\<lparr>saved = [(''/tmp/a.wav'', ''first'')], printed = []\<rparr>"] f1 f2
  show ?thesis
    unfolding p by (simp add: empty_world_def)
qed

end
